theory Spec2Isabelle
  imports Complex_Main
begin

section \<open>Strings and numbers of the runtime\<close>

text \<open>
  A string is the sequence of bytes of its UTF-8 encoding. The three glyphs the command
  line prints are therefore byte sequences.
\<close>

definition warning_sign :: string where
  "warning_sign = [CHR 0xE2, CHR 0x9A, CHR 0xA0, CHR 0xEF, CHR 0xB8, CHR 0x8F]"

definition check_mark :: string where
  "check_mark = [CHR 0xE2, CHR 0x9C, CHR 0x85]"

definition cross_mark :: string where
  "cross_mark = [CHR 0xE2, CHR 0x9D, CHR 0x8C]"

text \<open>
  Template literals print an integral number in decimal (exact below \<open>10^21\<close>, which covers
  every attempt counter of this program).
\<close>

definition digit_char :: "nat \<Rightarrow> char" where
  "digit_char d = ''0123456789'' ! d"

function show_nat :: "nat \<Rightarrow> string" where
  "show_nat n = (if n < 10 then [digit_char n] else show_nat (n div 10) @ [digit_char (n mod 10)])"
  by pat_completeness auto
termination
  by (relation "measure id") auto

declare show_nat.simps [simp del]

definition show_int :: "int \<Rightarrow> string" where
  "show_int i = (if i < 0 then CHR ''-'' # show_nat (nat (- i)) else show_nat (nat i))"

text \<open>
  \<open>parseInt(s, 10)\<close> of the language: leading white space is skipped (the
  \<open>StrWhiteSpaceChar\<close> set, here as UTF-8 byte sequences), then an optional sign, then the
  longest run of decimal digits; no digit gives \<open>NaN\<close> (\<open>None\<close>). The digits are read
  exactly; the runtime rounds to a double beyond \<open>2^53\<close>, which no caller in this program
  can observe after clamping.
\<close>

definition StrWhiteSpaceChar :: "string list" where
  "StrWhiteSpaceChar =
    [[CHR 0x09], [CHR 0x0A], [CHR 0x0B], [CHR 0x0C], [CHR 0x0D], [CHR 0x20],
     [CHR 0xC2, CHR 0xA0],
     [CHR 0xE1, CHR 0x9A, CHR 0x80],
     [CHR 0xE2, CHR 0x80, CHR 0x80], [CHR 0xE2, CHR 0x80, CHR 0x81],
     [CHR 0xE2, CHR 0x80, CHR 0x82], [CHR 0xE2, CHR 0x80, CHR 0x83],
     [CHR 0xE2, CHR 0x80, CHR 0x84], [CHR 0xE2, CHR 0x80, CHR 0x85],
     [CHR 0xE2, CHR 0x80, CHR 0x86], [CHR 0xE2, CHR 0x80, CHR 0x87],
     [CHR 0xE2, CHR 0x80, CHR 0x88], [CHR 0xE2, CHR 0x80, CHR 0x89],
     [CHR 0xE2, CHR 0x80, CHR 0x8A],
     [CHR 0xE2, CHR 0x80, CHR 0xA8], [CHR 0xE2, CHR 0x80, CHR 0xA9],
     [CHR 0xE2, CHR 0x80, CHR 0xAF],
     [CHR 0xE2, CHR 0x81, CHR 0x9F],
     [CHR 0xE3, CHR 0x80, CHR 0x80],
     [CHR 0xEF, CHR 0xBB, CHR 0xBF]]"

definition whiteSpacePrefix :: "string \<Rightarrow> nat" where
  "whiteSpacePrefix s =
     (case find (\<lambda>p. take (length p) s = p) StrWhiteSpaceChar of
        None \<Rightarrow> 0
      | Some p \<Rightarrow> length p)"

lemma whiteSpacePrefix_le: "whiteSpacePrefix s \<le> length s"
proof (cases "find (\<lambda>p. take (length p) s = p) StrWhiteSpaceChar")
  case None
  then show ?thesis by (simp add: whiteSpacePrefix_def)
next
  case (Some p)
  then have "take (length p) s = p"
    by (auto simp: find_Some_iff)
  then have "length p \<le> length s"
    by (metis length_take min.cobounded1)
  with Some show ?thesis by (simp add: whiteSpacePrefix_def)
qed

function skipWhiteSpace :: "string \<Rightarrow> string" where
  "skipWhiteSpace s =
     (if whiteSpacePrefix s = 0 then s else skipWhiteSpace (drop (whiteSpacePrefix s) s))"
  by pat_completeness auto
termination
proof (relation "measure length")
  show "wf (measure length)" by simp
next
  fix s :: string
  assume "whiteSpacePrefix s \<noteq> 0"
  moreover have "whiteSpacePrefix s \<le> length s" by (rule whiteSpacePrefix_le)
  ultimately show "(drop (whiteSpacePrefix s) s, s) \<in> measure length"
    by simp
qed

declare skipWhiteSpace.simps [simp del]

definition isDigit :: "char \<Rightarrow> bool" where
  "isDigit c = (48 \<le> (of_char c :: nat) \<and> (of_char c :: nat) \<le> 57)"

definition digitsValue :: "string \<Rightarrow> nat" where
  "digitsValue ds = foldl (\<lambda>acc c. 10 * acc + (of_char c - 48)) 0 ds"

definition parseInt :: "string \<Rightarrow> int option" where
  "parseInt s =
     (let t = skipWhiteSpace s;
          neg = (t \<noteq> [] \<and> hd t = CHR ''-'');
          u = (if t \<noteq> [] \<and> (hd t = CHR ''-'' \<or> hd t = CHR ''+'') then tl t else t);
          ds = takeWhile isDigit u
      in if ds = [] then None
         else Some ((if neg then - 1 else 1) * int (digitsValue ds)))"

section \<open>The command line: retry configuration\<close>

definition DEFAULT_RETRIES :: int where
  "DEFAULT_RETRIES = 3"

definition RETRY_DELAY_MS :: int where
  "RETRY_DELAY_MS = 5000"

text \<open>
  \<open>parseRetries(retriesStr?)\<close>: an absent or empty option gives the default, a string
  that \<open>parseInt\<close> cannot read gives the default, any other is clamped to 1..10.
\<close>

definition parseRetries :: "string option \<Rightarrow> int" where
  "parseRetries retriesStr =
     (case retriesStr of
        None \<Rightarrow> DEFAULT_RETRIES
      | Some s \<Rightarrow>
          if s = [] then DEFAULT_RETRIES
          else (case parseInt s of
                  None \<Rightarrow> DEFAULT_RETRIES
                | Some n \<Rightarrow> max 1 (min n 10)))"


section \<open>Values, thrown values and the observable trace\<close>

text \<open>
  A value of the language, as far as the command line handles one: the result of
  \<open>JSON.parse\<close>, or a field of the notification payload. An object is the list of its own
  properties in assignment order; of two entries with one key the later one is the
  property's value.
\<close>

datatype number = NaN | Num rat | Infinity bool

datatype jsval =
    JUndefined
  | JNull
  | JBool bool
  | JNum number
  | JStr string
  | JArr "jsval list"
  | JObj "(string \<times> jsval) list"

text \<open>The truth value a condition \<open>if (v)\<close> reads.\<close>

fun truthy :: "jsval \<Rightarrow> bool" where
  "truthy JUndefined = False"
| "truthy JNull = False"
| "truthy (JBool b) = b"
| "truthy (JNum NaN) = False"
| "truthy (JNum (Num q)) = (q \<noteq> 0)"
| "truthy (JNum (Infinity _)) = True"
| "truthy (JStr s) = (s \<noteq> [])"
| "truthy (JArr _) = True"
| "truthy (JObj _) = True"

text \<open>
  The UTF-16 code units of a string, each as the bytes that encode it: a string value is
  indexed by code unit, so a character outside the basic plane counts as its two
  surrogates.
\<close>

definition encodeUnit :: "nat \<Rightarrow> string" where
  "encodeUnit u =
     [char_of (0xE0 + u div 0x1000), char_of (0x80 + (u div 0x40) mod 0x40),
      char_of (0x80 + u mod 0x40)]"

definition surrogates :: "string \<Rightarrow> string list" where
  "surrogates bs =
     (let b = map (of_char :: char \<Rightarrow> nat) (bs @ replicate 4 (CHR 0x80));
          cp = (b ! 0 mod 8) * 0x40000 + (b ! 1 mod 0x40) * 0x1000
               + (b ! 2 mod 0x40) * 0x40 + (b ! 3 mod 0x40);
          v = cp - 0x10000
      in [encodeUnit (0xD800 + v div 0x400), encodeUnit (0xDC00 + v mod 0x400)])"

function codeUnits :: "string \<Rightarrow> string list" where
  "codeUnits [] = []"
| "codeUnits (c # cs) =
     (if (of_char c :: nat) < 0xC0 then [c] # codeUnits cs
      else if (of_char c :: nat) < 0xE0 then (c # take 1 cs) # codeUnits (drop 1 cs)
      else if (of_char c :: nat) < 0xF0 then (c # take 2 cs) # codeUnits (drop 2 cs)
      else surrogates (c # take 3 cs) @ codeUnits (drop 3 cs))"
  by pat_completeness auto
termination
  by (relation "measure length") auto

text \<open>
  The own enumerable properties an object spread \<open>{...v}\<close> copies: those of an object,
  the indexed elements of an array, the indexed code units of a string, none of any
  other value.
\<close>

definition indexed :: "jsval list \<Rightarrow> (string \<times> jsval) list" where
  "indexed vs = zip (map show_nat [0..<length vs]) vs"

fun ownProps :: "jsval \<Rightarrow> (string \<times> jsval) list" where
  "ownProps (JObj kvs) = kvs"
| "ownProps (JArr vs) = indexed vs"
| "ownProps (JStr s) = indexed (map JStr (codeUnits s))"
| "ownProps _ = []"

text \<open>
  What a \<open>throw\<close> carries: an \<open>Error\<close> instance with its name and message,
  \<open>undefined\<close>, or any other value, given by what \<open>String(value)\<close> prints.
\<close>

datatype thrown = JSUndefined | JSError string string | JSOther string

text \<open>\<open>new Error(message)\<close>\<close>

definition newError :: "string \<Rightarrow> thrown" where
  "newError message = JSError ''Error'' message"

text \<open>\<open>String(error)\<close>\<close>

fun stringOf :: "thrown \<Rightarrow> string" where
  "stringOf (JSError name message) =
     (if message = [] then name else if name = [] then message else name @ '': '' @ message)"
| "stringOf (JSOther s) = s"
| "stringOf JSUndefined = ''undefined''"

text \<open>\<open>error instanceof Error ? error : new Error(String(error))\<close>\<close>

fun toError :: "thrown \<Rightarrow> thrown" where
  "toError (JSError name message) = JSError name message"
| "toError e = newError (stringOf e)"

text \<open>\<open>error instanceof Error ? error.message : String(error)\<close>\<close>

fun errorMessage :: "thrown \<Rightarrow> string" where
  "errorMessage (JSError name message) = message"
| "errorMessage e = stringOf e"

datatype platform = Instagram | Twitter | LinkedIn

datatype actionType = Like | Comment | Follow | Dm | Post | Connect

datatype notifyEvent = ActionComplete | ActionError | SessionLogin | RateLimitExceeded

text \<open>
  The notification payload. Platform and action are the strings the type unions of the
  program stand for (\<open>'instagram'\<close>, \<open>'like'\<close>, ...).
\<close>

record notificationPayload =
  nEvent :: notifyEvent
  nPlatform :: string
  nAction :: string
  nSuccess :: bool
  nTarget :: string
  nError :: "string option"
  nDetails :: jsval
  nTimestamp :: int

text \<open>
  What a run of the command line does, in order: console lines, waits, writes to the
  process environment, the calls into the rest of the program (initialisation, each
  invocation of the unit of work by the retry wrapper, the notifier, shutdown) and
  \<open>process.exit\<close>.
\<close>

datatype event =
    ConsoleLog string
  | ConsoleError string
  | ConsoleErrorValue string thrown
  | Sleep int
  | SetEnv string string
  | Initialize
  | Attempt int
  | Notify notificationPayload
  | Shutdown
  | Exit int

text \<open>
  The state of a run: the trace so far, and the state \<open>ext\<close> of everything outside the
  code that runs (browser, platform, quota store, notifier, clock). A call into the rest
  of the program is a function of that outside state, returning a value or throwing.
\<close>

record ('e, 'x) world =
  trace :: "'e list"
  ext :: 'x

definition emit :: "'e list \<Rightarrow> ('e, 'x) world \<Rightarrow> ('e, 'x) world" where
  "emit es w = \<lparr>trace = trace w @ es, ext = ext w\<rparr>"

text \<open>A call into the rest of the program, recorded in the trace before it runs.\<close>

definition call ::
  "'e \<Rightarrow> ('x \<Rightarrow> (thrown + 'a) \<times> 'x) \<Rightarrow> ('e, 'x) world \<Rightarrow> (thrown + 'a) \<times> ('e, 'x) world" where
  "call e f w = (case f (ext w) of (r, x) \<Rightarrow> (r, \<lparr>trace = trace w @ [e], ext = x\<rparr>))"

text \<open>Sequencing of awaited steps: a throw skips the rest.\<close>

definition bindE ::
  "('w \<Rightarrow> (thrown + 'a) \<times> 'w) \<Rightarrow> ('a \<Rightarrow> 'w \<Rightarrow> (thrown + 'b) \<times> 'w)
     \<Rightarrow> 'w \<Rightarrow> (thrown + 'b) \<times> 'w" where
  "bindE m f w = (case m w of (Inl e, w') \<Rightarrow> (Inl e, w') | (Inr v, w') \<Rightarrow> f v w')"

definition returnE :: "'a \<Rightarrow> 'w \<Rightarrow> (thrown + 'a) \<times> 'w" where
  "returnE v w = (Inr v, w)"

definition logE :: "'e list \<Rightarrow> ('e, 'x) world \<Rightarrow> (thrown + unit) \<times> ('e, 'x) world" where
  "logE es w = (Inr (), emit es w)"

section \<open>The retry wrapper\<close>

text \<open>
  The options object of \<open>withRetry\<close>. It reads three properties; whatever else a caller
  puts into the object is carried along unread.
\<close>

record retryOptions =
  retries :: int
  actionName :: string
  target :: string

text \<open>The three console lines of a failed attempt that is not the last, and the wait.\<close>

definition attemptFailedLine :: "'z retryOptions_scheme \<Rightarrow> int \<Rightarrow> string" where
  "attemptFailedLine options attempt =
     warning_sign @ '' Attempt '' @ show_int attempt @ ''/'' @ show_int (retries options)
       @ '' failed for '' @ actionName options @ '' ('' @ target options @ '')''"

definition retryEvents :: "'z retryOptions_scheme \<Rightarrow> int \<Rightarrow> thrown \<Rightarrow> event list" where
  "retryEvents options attempt lastError =
     [ConsoleLog (attemptFailedLine options attempt),
      ConsoleLog (''   Error: '' @ errorMessage lastError),
      ConsoleLog (''   Retrying in '' @ show_int (RETRY_DELAY_MS div 1000) @ ''s...''),
      Sleep RETRY_DELAY_MS]"

text \<open>
  \<open>withRetry(action, {retries, actionName, target})\<close>: the loop over
  \<open>attempt = 1 .. retries\<close>. Each invocation of \<open>action\<close> is recorded as \<open>Attempt attempt\<close>.
  After the loop the last error is thrown (\<open>undefined\<close> when the loop never ran).
\<close>

function withRetry_loop ::
  "('x \<Rightarrow> (thrown + 'a) \<times> 'x) \<Rightarrow> 'z retryOptions_scheme \<Rightarrow> int \<Rightarrow> thrown \<Rightarrow> (event, 'x) world
     \<Rightarrow> (thrown + 'a) \<times> (event, 'x) world" where
  "withRetry_loop action options attempt lastError w =
     (if attempt \<le> retries options then
        (case call (Attempt attempt) action w of
           (Inr v, w') \<Rightarrow> (Inr v, w')
         | (Inl e, w') \<Rightarrow>
             withRetry_loop action options (attempt + 1) (toError e)
               (emit (if attempt < retries options
                      then retryEvents options attempt (toError e) else []) w'))
      else (Inl lastError, w))"
  by pat_completeness auto
termination
  by (relation "measure (\<lambda>(action, options, attempt, lastError, w).
        nat (retries options + 1 - attempt))") auto

declare withRetry_loop.simps [simp del]

definition withRetry ::
  "('x \<Rightarrow> (thrown + 'a) \<times> 'x) \<Rightarrow> 'z retryOptions_scheme \<Rightarrow> (event, 'x) world
     \<Rightarrow> (thrown + 'a) \<times> (event, 'x) world" where
  "withRetry action options w = withRetry_loop action options 1 JSUndefined w"


section \<open>The command line: context, notification, action commands\<close>

text \<open>
  What the command line calls outside itself. \<open>JSON_parse\<close> and \<open>toUpperCase\<close> are the
  language's own (\<open>None\<close>: a \<open>SyntaxError\<close> is thrown); \<open>initialize\<close> and \<open>shutdown\<close> are
  those of the \<open>ClawSocial\<close> instance; \<open>isEnabled\<close> and \<open>notify\<close> are its notifier's;
  \<open>setEnv\<close> is the write to \<open>process.env\<close>, which the rest of the program may read.
  Constructing the instance is taken not to throw.
\<close>

record 'x runtime =
  JSON_parse :: "string \<Rightarrow> jsval option"
  toUpperCase :: "string \<Rightarrow> string"
  setEnv :: "string \<Rightarrow> string \<Rightarrow> 'x \<Rightarrow> 'x"
  initialize :: "'x \<Rightarrow> (thrown + unit) \<times> 'x"
  shutdown :: "'x \<Rightarrow> (thrown + unit) \<times> 'x"
  isEnabled :: "'x \<Rightarrow> bool"
  notify :: "notificationPayload \<Rightarrow> 'x \<Rightarrow> (thrown + unit) \<times> 'x"
  dateNow :: "'x \<Rightarrow> int"

text \<open>
  \<open>parseContext(contextStr?)\<close>: \<open>undefined\<close> for an absent or empty string; the parsed
  value; or, when parsing throws, a console line and \<open>undefined\<close>.
\<close>

definition parseContext ::
  "'x runtime \<Rightarrow> string option \<Rightarrow> (event, 'x) world \<Rightarrow> jsval \<times> (event, 'x) world" where
  "parseContext rt contextStr w =
     (case contextStr of
        None \<Rightarrow> (JUndefined, w)
      | Some s \<Rightarrow>
          if s = [] then (JUndefined, w)
          else (case JSON_parse rt s of
                  Some v \<Rightarrow> (v, w)
                | None \<Rightarrow> (JUndefined, emit [ConsoleError (''Invalid --context JSON: '' @ s)] w)))"

text \<open>\<open>sendNotificationWithContext(claw, platform, action, success, target, context?, error?)\<close>\<close>

definition sendNotificationWithContext ::
  "'x runtime \<Rightarrow> string \<Rightarrow> string \<Rightarrow> bool \<Rightarrow> string \<Rightarrow> jsval \<Rightarrow> string option
     \<Rightarrow> (event, 'x) world \<Rightarrow> (thrown + unit) \<times> (event, 'x) world" where
  "sendNotificationWithContext rt plat act ok tgt ctx err w =
     (if \<not> isEnabled rt (ext w) then (Inr (), w)
      else call (Notify \<lparr>nEvent = (if ok then ActionComplete else ActionError),
                         nPlatform = plat, nAction = act, nSuccess = ok, nTarget = tgt,
                         nError = err, nDetails = ctx, nTimestamp = dateNow rt (ext w)\<rparr>)
             (notify rt \<lparr>nEvent = (if ok then ActionComplete else ActionError),
                         nPlatform = plat, nAction = act, nSuccess = ok, nTarget = tgt,
                         nError = err, nDetails = ctx, nTimestamp = dateNow rt (ext w)\<rparr>) w)"

text \<open>
  What a platform handler returns, as far as the command line reads it: the success flag
  and the optional error message; \<open>other\<close> stands for the remaining fields.
\<close>

record 'm actionResult =
  success :: bool
  error :: "string option"
  other :: 'm

text \<open>
  The unit of work every action command hands to the retry wrapper:
  \<open>const res = await handler(); if (!res.success) throw new Error(res.error || fallback);
  return res\<close>.
\<close>

definition unitOfWork ::
  "('x \<Rightarrow> (thrown + 'm actionResult) \<times> 'x) \<Rightarrow> string \<Rightarrow> 'x \<Rightarrow> (thrown + 'm actionResult) \<times> 'x" where
  "unitOfWork handler fallback x =
     (case handler x of
        (Inl e, x') \<Rightarrow> (Inl e, x')
      | (Inr res, x') \<Rightarrow>
          if \<not> success res
          then (Inl (newError (case error res of
                                 None \<Rightarrow> fallback
                               | Some m \<Rightarrow> if m = [] then fallback else m)), x')
          else (Inr res, x'))"

text \<open>How a command ends: it returns, it calls \<open>process.exit\<close>, or a throw escapes it.\<close>

datatype cmdStatus = Returned | Exited int | Uncaught thrown

record cliOptions =
  contextOpt :: "string option"
  retriesOpt :: "string option"
  noteOpt :: "string option"

text \<open>
  The six action commands that take \<open>--context\<close> and \<open>--retries\<close> are one body with
  different constants: the payload's platform and action, the handler and the message
  thrown when its result has none, the label and target the retry wrapper prints, the
  two console lines, the target of the notification and the properties the success
  notification puts before the spread context.
\<close>

record actionCommand =
  cmdPlatform :: string
  cmdAction :: string
  cmdFallback :: string
  cmdName :: string
  cmdRetryTarget :: string
  cmdSuccessLine :: string
  cmdFailurePrefix :: string
  cmdNotifyTarget :: string
  cmdDetails :: "(string \<times> jsval) list"

text \<open>The \<open>try\<close> block, after the options are read and the flag is set.\<close>

definition tryBlock ::
  "'x runtime \<Rightarrow> actionCommand \<Rightarrow> ('x \<Rightarrow> (thrown + 'm actionResult) \<times> 'x) \<Rightarrow> int \<Rightarrow> jsval
     \<Rightarrow> (event, 'x) world \<Rightarrow> (thrown + unit) \<times> (event, 'x) world" where
  "tryBlock rt cmd handler n ctx =
     bindE (call Initialize (initialize rt)) (\<lambda>_.
     bindE (withRetry (unitOfWork handler (cmdFallback cmd))
              \<lparr>retries = n, actionName = cmdName cmd, target = cmdRetryTarget cmd\<rparr>) (\<lambda>_.
     bindE (logE [ConsoleLog (cmdSuccessLine cmd)]) (\<lambda>_.
     bindE (if truthy ctx
            then sendNotificationWithContext rt (cmdPlatform cmd) (cmdAction cmd) True
                   (cmdNotifyTarget cmd) (JObj (cmdDetails cmd @ ownProps ctx)) None
            else returnE ()) (\<lambda>_.
     call Shutdown (shutdown rt)))))"

text \<open>The \<open>catch\<close> block: a throw inside it escapes the command.\<close>

definition catchBlock ::
  "'x runtime \<Rightarrow> actionCommand \<Rightarrow> int \<Rightarrow> jsval \<Rightarrow> thrown
     \<Rightarrow> (event, 'x) world \<Rightarrow> (thrown + unit) \<times> (event, 'x) world" where
  "catchBlock rt cmd n ctx e =
     bindE (logE [ConsoleLog (cmdFailurePrefix cmd @ '' after '' @ show_int n
                    @ '' attempts: '' @ errorMessage e)]) (\<lambda>_.
     bindE (if truthy ctx
            then sendNotificationWithContext rt (cmdPlatform cmd) (cmdAction cmd) False
                   (cmdNotifyTarget cmd) ctx (Some (errorMessage e))
            else returnE ()) (\<lambda>_.
     bindE (call Shutdown (shutdown rt)) (\<lambda>_.
     logE [Exit 1])))"

definition runActionCommand ::
  "'x runtime \<Rightarrow> actionCommand \<Rightarrow> ('x \<Rightarrow> (thrown + 'm actionResult) \<times> 'x) \<Rightarrow> cliOptions
     \<Rightarrow> (event, 'x) world \<Rightarrow> cmdStatus \<times> (event, 'x) world" where
  "runActionCommand rt cmd handler options w =
     (let n = parseRetries (retriesOpt options);
          (ctx, w1) = parseContext rt (contextOpt options) w;
          w2 = (if truthy ctx
                then \<lparr>trace = trace w1 @ [SetEnv ''CLAWSOCIAL_SILENT'' ''1''],
                      ext = setEnv rt ''CLAWSOCIAL_SILENT'' ''1'' (ext w1)\<rparr>
                else w1)
      in case tryBlock rt cmd handler n ctx w2 of
           (Inr _, w3) \<Rightarrow> (Returned, w3)
         | (Inl e, w3) \<Rightarrow>
             (case catchBlock rt cmd n ctx e w3 of
                (Inr _, w4) \<Rightarrow> (Exited 1, w4)
              | (Inl e', w4) \<Rightarrow> (Uncaught e', w4)))"

text \<open>\<open>ig like <url>\<close>, \<open>ig follow <username>\<close>, \<open>ig comment <url> <text>\<close>\<close>

definition ig_like_cmd :: "string \<Rightarrow> actionCommand" where
  "ig_like_cmd url =
     \<lparr>cmdPlatform = ''instagram'', cmdAction = ''like'', cmdFallback = ''Like failed'',
      cmdName = ''IG like'', cmdRetryTarget = url,
      cmdSuccessLine = check_mark @ '' Liked post: '' @ url,
      cmdFailurePrefix = cross_mark @ '' Failed to like'',
      cmdNotifyTarget = url,
      cmdDetails = [(''postUrl'', JStr url)]\<rparr>"

definition ig_follow_cmd :: "string \<Rightarrow> actionCommand" where
  "ig_follow_cmd username =
     \<lparr>cmdPlatform = ''instagram'', cmdAction = ''follow'', cmdFallback = ''Follow failed'',
      cmdName = ''IG follow'', cmdRetryTarget = ''@'' @ username,
      cmdSuccessLine = check_mark @ '' Followed: @'' @ username,
      cmdFailurePrefix = cross_mark @ '' Failed to follow @'' @ username,
      cmdNotifyTarget = username,
      cmdDetails = [(''profileUrl'', JStr (''https://instagram.com/'' @ username))]\<rparr>"

definition ig_comment_cmd :: "string \<Rightarrow> string \<Rightarrow> actionCommand" where
  "ig_comment_cmd url txt =
     \<lparr>cmdPlatform = ''instagram'', cmdAction = ''comment'', cmdFallback = ''Comment failed'',
      cmdName = ''IG comment'', cmdRetryTarget = url,
      cmdSuccessLine = check_mark @ '' Commented on: '' @ url,
      cmdFailurePrefix = cross_mark @ '' Failed to comment'',
      cmdNotifyTarget = url,
      cmdDetails = [(''postUrl'', JStr url), (''commentText'', JStr txt)]\<rparr>"

text \<open>\<open>x like <url>\<close>\<close>

definition x_like_cmd :: "string \<Rightarrow> actionCommand" where
  "x_like_cmd url =
     \<lparr>cmdPlatform = ''twitter'', cmdAction = ''like'', cmdFallback = ''Like failed'',
      cmdName = ''X like'', cmdRetryTarget = url,
      cmdSuccessLine = check_mark @ '' Liked tweet: '' @ url,
      cmdFailurePrefix = cross_mark @ '' Failed to like'',
      cmdNotifyTarget = url,
      cmdDetails = [(''postUrl'', JStr url)]\<rparr>"

text \<open>
  \<open>x follow <username>\<close> first reads the user name out of a URL: the first match of
  \<open>/(?:x\.com|twitter\.com)\/(@?[\w]+)/\<close>, without its \<open>@\<close>.
\<close>

definition isWordChar :: "char \<Rightarrow> bool" where
  "isWordChar c =
     (let n = (of_char c :: nat)
      in (48 \<le> n \<and> n \<le> 57) \<or> (65 \<le> n \<and> n \<le> 90) \<or> n = 95 \<or> (97 \<le> n \<and> n \<le> 122))"

definition startsWith :: "string \<Rightarrow> string \<Rightarrow> bool" where
  "startsWith p s = (take (length p) s = p)"

fun strIncludes :: "string \<Rightarrow> string \<Rightarrow> bool" where
  "strIncludes p [] = (p = [])"
| "strIncludes p (c # cs) = (startsWith p (c # cs) \<or> strIncludes p cs)"

definition matchHere :: "string \<Rightarrow> string option" where
  "matchHere s =
     (let rest = (if startsWith ''x.com/'' s then Some (drop 6 s)
                  else if startsWith ''twitter.com/'' s then Some (drop 12 s)
                  else None)
      in case rest of
           None \<Rightarrow> None
         | Some t \<Rightarrow>
             (let sigil = (if startsWith ''@'' t then ''@'' else []);
                  ws = takeWhile isWordChar (drop (length sigil) t)
              in if ws = [] then None else Some (sigil @ ws)))"

fun firstMatch :: "string \<Rightarrow> string option" where
  "firstMatch [] = None"
| "firstMatch (c # cs) = (case matchHere (c # cs) of Some g \<Rightarrow> Some g | None \<Rightarrow> firstMatch cs)"

definition stripAt :: "string \<Rightarrow> string" where
  "stripAt s = (if startsWith ''@'' s then tl s else s)"

definition extractUsername :: "string \<Rightarrow> string" where
  "extractUsername usernameOrUrl =
     stripAt
       (if strIncludes ''x.com/'' usernameOrUrl \<or> strIncludes ''twitter.com/'' usernameOrUrl
        then (case firstMatch usernameOrUrl of
                Some g \<Rightarrow> stripAt g
              | None \<Rightarrow> usernameOrUrl)
        else usernameOrUrl)"

definition x_follow_cmd :: "string \<Rightarrow> actionCommand" where
  "x_follow_cmd usernameOrUrl =
     (let username = extractUsername usernameOrUrl
      in \<lparr>cmdPlatform = ''twitter'', cmdAction = ''follow'', cmdFallback = ''Follow failed'',
          cmdName = ''X follow'', cmdRetryTarget = ''@'' @ username,
          cmdSuccessLine = check_mark @ '' Followed: @'' @ username,
          cmdFailurePrefix = cross_mark @ '' Failed to follow @'' @ username,
          cmdNotifyTarget = username,
          cmdDetails = [(''profileUrl'', JStr (''https://x.com/'' @ username))]\<rparr>)"

text \<open>\<open>linkedin connect <url> [--note <note>]\<close>\<close>

definition linkedin_connect_cmd :: "string \<Rightarrow> string option \<Rightarrow> actionCommand" where
  "linkedin_connect_cmd url note =
     \<lparr>cmdPlatform = ''linkedin'', cmdAction = ''connect'', cmdFallback = ''Connect failed'',
      cmdName = ''LinkedIn connect'', cmdRetryTarget = url,
      cmdSuccessLine = check_mark @ '' Sent connection request to: '' @ url,
      cmdFailurePrefix = cross_mark @ '' Failed to connect'',
      cmdNotifyTarget = url,
      cmdDetails = [(''profileUrl'', JStr url),
                    (''note'', (case note of None \<Rightarrow> JUndefined | Some s \<Rightarrow> JStr s))]\<rparr>"

text \<open>
  \<open>notify report <platform> <action> <target> [--context <json>] [--error <message>]\<close>.
  Its \<open>process.exit\<close> ends the run where it stands.
\<close>

record reportOptions =
  reportContext :: "string option"
  reportError :: "string option"

definition falsyString :: "string option \<Rightarrow> bool" where
  "falsyString s = (s = None \<or> s = Some [])"

definition notifyReport ::
  "'x runtime \<Rightarrow> string \<Rightarrow> string \<Rightarrow> string \<Rightarrow> reportOptions
     \<Rightarrow> (event, 'x) world \<Rightarrow> cmdStatus \<times> (event, 'x) world" where
  "notifyReport rt plat act tgt options w =
     (if \<not> isEnabled rt (ext w)
      then (Exited 1, emit [ConsoleLog (cross_mark @ '' Notifications disabled. Set NOTIFY_ENABLED=true''),
                            Exit 1] w)
      else (case (if falsyString (reportContext options) then Some (JObj [])
                  else JSON_parse rt (the (reportContext options))) of
              None \<Rightarrow> (Exited 1, emit [ConsoleError (cross_mark @ '' Invalid JSON in --context''),
                                      Exit 1] w)
            | Some d \<Rightarrow>
                (case call (Notify \<lparr>nEvent = (if falsyString (reportError options)
                                               then ActionComplete else ActionError),
                                     nPlatform = plat, nAction = act,
                                     nSuccess = falsyString (reportError options),
                                     nTarget = tgt, nError = reportError options, nDetails = d,
                                     nTimestamp = dateNow rt (ext w)\<rparr>)
                        (notify rt \<lparr>nEvent = (if falsyString (reportError options)
                                               then ActionComplete else ActionError),
                                     nPlatform = plat, nAction = act,
                                     nSuccess = falsyString (reportError options),
                                     nTarget = tgt, nError = reportError options, nDetails = d,
                                     nTimestamp = dateNow rt (ext w)\<rparr>) w of
                   (Inr _, w') \<Rightarrow>
                     (Returned, emit [ConsoleLog (check_mark @ '' '' @ toUpperCase rt plat @ '' ''
                                        @ toUpperCase rt act @ '' report sent'')] w')
                 | (Inl e, w') \<Rightarrow>
                     (Exited 1, emit [ConsoleErrorValue ''Error:'' e, Exit 1] w'))))"


text \<open>The six commands, by name and arguments.\<close>

datatype command =
    IgLike string
  | IgFollow string
  | IgComment string string
  | XLike string
  | XFollow string
  | LinkedinConnect string "string option"

fun commandSpec :: "command \<Rightarrow> actionCommand" where
  "commandSpec (IgLike url) = ig_like_cmd url"
| "commandSpec (IgFollow username) = ig_follow_cmd username"
| "commandSpec (IgComment url txt) = ig_comment_cmd url txt"
| "commandSpec (XLike url) = x_like_cmd url"
| "commandSpec (XFollow usernameOrUrl) = x_follow_cmd usernameOrUrl"
| "commandSpec (LinkedinConnect url note) = linkedin_connect_cmd url note"

section \<open>The Instagram handler: like\<close>

text \<open>
  What \<open>InstagramHandler.like\<close> calls in its base class and the browser. These are not
  among the sources and are taken as given: each is a function of the outside state
  (quota store, browser, page, random generator, clock). \<open>createResult\<close> and
  \<open>createErrorResult\<close> build the returned result.
\<close>

record ('y, 'st, 'm) handlerOps =
  hDateNow :: "'y \<Rightarrow> int"
  mathRandom :: "'y \<Rightarrow> rat \<times> 'y"
  checkAndRecordAction :: "actionType \<Rightarrow> 'y \<Rightarrow> (thrown + bool \<times> 'st) \<times> 'y"
  recordAction :: "actionType \<Rightarrow> 'y \<Rightarrow> (thrown + unit) \<times> 'y"
  navigate :: "string \<Rightarrow> 'y \<Rightarrow> (thrown + unit) \<times> 'y"
  warmUp :: "int \<Rightarrow> 'y \<Rightarrow> (thrown + unit) \<times> 'y"
  think :: "'y \<Rightarrow> (thrown + unit) \<times> 'y"
  pause :: "'y \<Rightarrow> (thrown + unit) \<times> 'y"
  elementExists :: "string \<Rightarrow> 'y \<Rightarrow> (thrown + bool) \<times> 'y"
  clickHuman :: "string \<Rightarrow> 'y \<Rightarrow> (thrown + unit) \<times> 'y"
  createResult :: "actionType \<Rightarrow> string \<Rightarrow> int \<Rightarrow> 'st \<Rightarrow> (string \<times> jsval) list \<Rightarrow> 'm actionResult"
  createErrorResult :: "actionType \<Rightarrow> string \<Rightarrow> string \<Rightarrow> int \<Rightarrow> 'st \<Rightarrow> 'm actionResult"

text \<open>What the handler does, in order: the calls above and the logger's lines.\<close>

datatype hevent =
    CheckAndRecordAction actionType
  | RecordAction actionType
  | Navigate string
  | WarmUp int
  | Think
  | Pause
  | ElementExists string
  | ClickHuman string
  | LogInfo string
  | LogError string string

definition baseUrl :: string where
  "baseUrl = ''https://www.instagram.com''"

definition SELECTORS_likeButton :: string where
  "SELECTORS_likeButton = ''svg[aria-label=\"Like\"], span svg[aria-label=\"Like\"]''"

definition SELECTORS_unlikeButton :: string where
  "SELECTORS_unlikeButton = ''svg[aria-label=\"Unlike\"]''"

text \<open>The glyph before \<open>Liked\<close> in the result's actions, byte for byte as the source file holds it.\<close>

definition likedGlyph :: string where
  "likedGlyph = [CHR 0xE2, CHR 0x80, CHR 0x9A, CHR 0xC3, CHR 0xB9, CHR 0xC2, CHR 0xA7,
                 CHR 0xC3, CHR 0x94, CHR 0xE2, CHR 0x88, CHR 0x8F, CHR 0xC3, CHR 0xA8]"

text \<open>\<open>2 + Math.floor(Math.random() * 2)\<close>\<close>

definition scrollCount :: "rat \<Rightarrow> int" where
  "scrollCount r = 2 + \<lfloor>r * 2\<rfloor>"

text \<open>The body of the \<open>try\<close> block of \<open>like\<close>.\<close>

definition like_try ::
  "('y, 'st, 'm) handlerOps \<Rightarrow> string \<Rightarrow> int \<Rightarrow> 'st
     \<Rightarrow> (hevent, 'y) world \<Rightarrow> (thrown + 'm actionResult) \<times> (hevent, 'y) world" where
  "like_try ops url startTime status =
     bindE (logE [LogInfo ''Liking Instagram post'']) (\<lambda>_.
     bindE (call (Navigate (baseUrl @ ''/'')) (navigate ops (baseUrl @ ''/''))) (\<lambda>_.
     bindE (\<lambda>w. case mathRandom ops (ext w) of
                   (r, y) \<Rightarrow> call (WarmUp (scrollCount r)) (warmUp ops (scrollCount r))
                               \<lparr>trace = trace w, ext = y\<rparr>) (\<lambda>_.
     bindE (call (Navigate url) (navigate ops url)) (\<lambda>_.
     bindE (call Think (think ops)) (\<lambda>_.
     bindE (call (ElementExists SELECTORS_unlikeButton) (elementExists ops SELECTORS_unlikeButton))
       (\<lambda>alreadyLiked.
     if alreadyLiked
     then bindE (logE [LogInfo ''Post already liked'']) (\<lambda>_.
          returnE (createResult ops Like url startTime status
                     [(''postUrl'', JStr url),
                      (''actions'', JArr [JStr (likedGlyph @ '' Already Liked'')])]))
     else
     bindE (call (ElementExists SELECTORS_likeButton) (elementExists ops SELECTORS_likeButton))
       (\<lambda>found.
     if \<not> found
     then returnE (createErrorResult ops Like url ''Like button not found'' startTime status)
     else
     bindE (call (ClickHuman SELECTORS_likeButton) (clickHuman ops SELECTORS_likeButton)) (\<lambda>_.
     bindE (call Pause (pause ops)) (\<lambda>_.
     bindE (call (ElementExists SELECTORS_unlikeButton) (elementExists ops SELECTORS_unlikeButton))
       (\<lambda>liked.
     if liked
     then bindE (call (RecordAction Like) (recordAction ops Like)) (\<lambda>_.
          bindE (logE [LogInfo ''Successfully liked Instagram post'']) (\<lambda>_.
          returnE (createResult ops Like url startTime status
                     [(''postUrl'', JStr url),
                      (''actions'', JArr [JStr (likedGlyph @ '' Liked'')])])))
     else returnE (createErrorResult ops Like url ''Like action failed'' startTime status)))))))))))"

text \<open>
  \<open>InstagramHandler.like(payload)\<close>: the gate first, outside the \<open>try\<close>; a denial
  returns at once. A throw inside the \<open>try\<close> becomes an error result.
\<close>

definition InstagramHandler_like ::
  "('y, 'st, 'm) handlerOps \<Rightarrow> string
     \<Rightarrow> (hevent, 'y) world \<Rightarrow> (thrown + 'm actionResult) \<times> (hevent, 'y) world" where
  "InstagramHandler_like ops url w =
     (let startTime = hDateNow ops (ext w)
      in case call (CheckAndRecordAction Like) (checkAndRecordAction ops Like) w of
           (Inl e, w1) \<Rightarrow> (Inl e, w1)
         | (Inr (allowed, status), w1) \<Rightarrow>
             if \<not> allowed
             then (Inr (createErrorResult ops Like url ''Rate limit exceeded'' startTime status), w1)
             else (case like_try ops url startTime status w1 of
                     (Inr res, w2) \<Rightarrow> (Inr res, w2)
                   | (Inl e, w2) \<Rightarrow>
                       (Inr (createErrorResult ops Like url (stringOf e) startTime status),
                        emit [LogError ''Error liking Instagram post'' (stringOf e)] w2)))"

text \<open>\<open>ig like <url>\<close> with the handler above: the outside state of the command line is the handler's world.\<close>

definition ig_like ::
  "((hevent, 'y) world) runtime \<Rightarrow> ('y, 'st, 'm) handlerOps \<Rightarrow> string \<Rightarrow> cliOptions
     \<Rightarrow> (event, (hevent, 'y) world) world \<Rightarrow> cmdStatus \<times> (event, (hevent, 'y) world) world" where
  "ig_like rt ops url options =
     runActionCommand rt (ig_like_cmd url) (InstagramHandler_like ops url) options"

section \<open>Reading a trace\<close>

fun isAttempt :: "event \<Rightarrow> bool" where
  "isAttempt (Attempt _) = True"
| "isAttempt _ = False"

text \<open>The number of invocations of the unit of work in a trace.\<close>

definition attempts :: "event list \<Rightarrow> nat" where
  "attempts t = length (filter isAttempt t)"

fun sleepOf :: "event \<Rightarrow> int list" where
  "sleepOf (Sleep d) = [d]"
| "sleepOf _ = []"

text \<open>The waits of a trace, in order.\<close>

definition sleeps :: "event list \<Rightarrow> int list" where
  "sleeps t = concat (map sleepOf t)"

text \<open>What a step added to the trace.\<close>

definition newEvents :: "('e, 'x) world \<Rightarrow> ('e, 'x) world \<Rightarrow> 'e list" where
  "newEvents w w' = drop (length (trace w)) (trace w')"




text \<open>The line that announces the wait, as the constant delay prints it.\<close>

definition retryingLine :: string where
  "retryingLine = ''   Retrying in 5s...''"

text \<open>
  The marks the retry wrapper leaves: an attempt, a failed-attempt line, the line that
  announces the wait, and the wait.
\<close>

fun isRetryMark :: "event \<Rightarrow> bool" where
  "isRetryMark (Attempt _) = True"
| "isRetryMark (Sleep _) = True"
| "isRetryMark (ConsoleLog l) = (startsWith (warning_sign @ '' Attempt '') l \<or> l = retryingLine)"
| "isRetryMark _ = False"

fun retryKind :: "event \<Rightarrow> bool" where
  "retryKind (Attempt _) = True"
| "retryKind (Sleep _) = True"
| "retryKind (ConsoleLog _) = True"
| "retryKind _ = False"

text \<open>
  The marks of a run with \<open>m\<close> attempts that starts at attempt \<open>a\<close>: every attempt but the
  last is followed by its failed-attempt line, the announcement and a wait of 5000 ms;
  nothing follows the last attempt.
\<close>

fun retrySchedule :: "'z retryOptions_scheme \<Rightarrow> int \<Rightarrow> nat \<Rightarrow> event list" where
  "retrySchedule options a 0 = []"
| "retrySchedule options a (Suc 0) = [Attempt a]"
| "retrySchedule options a (Suc (Suc m)) =
     [Attempt a, ConsoleLog (attemptFailedLine options a), ConsoleLog retryingLine, Sleep 5000]
       @ retrySchedule options (a + 1) (Suc m)"









text \<open>A step that only appends to the trace.\<close>

definition appendsOnly :: "(('e, 'x) world \<Rightarrow> 'r \<times> ('e, 'x) world) \<Rightarrow> bool" where
  "appendsOnly m = (\<forall>w. \<exists>es. trace (snd (m w)) = trace w @ es)"

text \<open>
  An options object with one more property than \<open>withRetry\<close> reads, as a caller would
  write it to ask for another delay.
\<close>

record delayedRetryOptions = retryOptions +
  fixedDelayMs :: int

text \<open>Two units of work for the examples: one that always fails, one that fails twice.\<close>

definition alwaysFailing :: "nat \<Rightarrow> (thrown + nat) \<times> nat" where
  "alwaysFailing x = (Inl (newError (''failure '' @ show_nat (Suc x))), Suc x)"


definition igLikeOptions :: retryOptions where
  "igLikeOptions = \<lparr>retries = 3, actionName = ''IG like'', target = ''https://instagram.com/p/1''\<rparr>"

definition emptyWorld :: "'x \<Rightarrow> ('e, 'x) world" where
  "emptyWorld x = \<lparr>trace = [], ext = x\<rparr>"


text \<open>
  For the examples: \<open>JSON.parse\<close> on the strings they pass (the literal \<open>null\<close>, an object
  with one property, and the malformed \<open>{\<close>), and a runtime in which the notifier is
  enabled and nothing outside the unit of work throws.
\<close>

definition exampleJSON :: "string \<Rightarrow> jsval option" where
  "exampleJSON s =
     (if s = ''null'' then Some JNull
      else if s = ''{\"author\":\"user\"}'' then Some (JObj [(''author'', JStr ''user'')])
      else None)"

definition exampleRuntime :: "'x runtime" where
  "exampleRuntime =
     \<lparr>JSON_parse = exampleJSON, toUpperCase = (\<lambda>s. s), setEnv = (\<lambda>k v x. x),
      initialize = (\<lambda>x. (Inr (), x)), shutdown = (\<lambda>x. (Inr (), x)),
      isEnabled = (\<lambda>x. True), notify = (\<lambda>p x. (Inr (), x)), dateNow = (\<lambda>x. 1770000000000)\<rparr>"


text \<open>Two handlers for the examples, counting their invocations: one succeeds, one fails.\<close>

definition succeeding :: "nat \<Rightarrow> (thrown + unit actionResult) \<times> nat" where
  "succeeding x = (Inr \<lparr>success = True, error = None, other = ()\<rparr>, Suc x)"


definition exampleUrl :: string where
  "exampleUrl = ''https://instagram.com/p/1''"

definition withContext :: "string \<Rightarrow> cliOptions" where
  "withContext s = \<lparr>contextOpt = Some s, retriesOpt = Some ''3'', noteOpt = None\<rparr>"

definition withoutContext :: cliOptions where
  "withoutContext = \<lparr>contextOpt = None, retriesOpt = Some ''3'', noteOpt = None\<rparr>"

text \<open>
  For the examples: a base handler whose gate denies every action, counting the calls of
  the gate; its results carry the success flag and the message.
\<close>

definition denyingOps :: "(nat, unit, unit) handlerOps" where
  "denyingOps =
     \<lparr>hDateNow = (\<lambda>y. 1770000000000), mathRandom = (\<lambda>y. (0, y)),
      checkAndRecordAction = (\<lambda>a y. (Inr (False, ()), Suc y)),
      recordAction = (\<lambda>a y. (Inr (), y)),
      navigate = (\<lambda>u y. (Inr (), y)), warmUp = (\<lambda>n y. (Inr (), y)),
      think = (\<lambda>y. (Inr (), y)), pause = (\<lambda>y. (Inr (), y)),
      elementExists = (\<lambda>s y. (Inr False, y)), clickHuman = (\<lambda>s y. (Inr (), y)),
      createResult = (\<lambda>a t st s d. \<lparr>success = True, error = None, other = ()\<rparr>),
      createErrorResult = (\<lambda>a t m st s. \<lparr>success = False, error = Some m, other = ()\<rparr>)\<rparr>"

text \<open>One turn of the loop: the world after a failed attempt.\<close>

definition afterFailure ::
  "'z retryOptions_scheme \<Rightarrow> int \<Rightarrow> thrown \<Rightarrow> 'x \<Rightarrow> (event, 'x) world \<Rightarrow> (event, 'x) world" where
  "afterFailure options attempt e x w =
     \<lparr>trace = trace w @ Attempt attempt #
                (if attempt < retries options then retryEvents options attempt (toError e) else []),
      ext = x\<rparr>"

section \<open>The retry count\<close>

text \<open>
  C7. For every string given to \<open>--retries\<close> the resolved attempt count lies between 1 and
  10; when the option is absent, or \<open>parseInt\<close> reads no number from it, the count is the
  default 3; otherwise it is the number read, clamped to 1..10.
\<close>

theorem parseRetries_clamped:
  "1 \<le> parseRetries r \<and> parseRetries r \<le> 10
   \<and> parseRetries None = 3
   \<and> (parseInt s = None \<longrightarrow> parseRetries (Some s) = 3)
   \<and> (t \<noteq> [] \<longrightarrow> parseInt t = Some n \<longrightarrow> parseRetries (Some t) = max 1 (min n 10))"
  by (simp add: parseRetries_def DEFAULT_RETRIES_def split: option.splits)

theorem parseRetries_clamped_witness:
  "parseInt ''many'' = None \<and> parseRetries (Some ''many'') = 3
   \<and> parseInt '' 42 times'' = Some 42 \<and> parseRetries (Some '' 42 times'') = 10
   \<and> parseInt ''-5'' = Some (- 5) \<and> parseRetries (Some ''-5'') = 1
   \<and> parseRetries (Some ''7'') = 7"
proof -
  have a: "parseInt ''many'' = None" by code_simp
  have b: "parseInt '' 42 times'' = Some 42" by code_simp
  have c: "parseInt ''-5'' = Some (- 5)" by code_simp
  have d: "parseInt ''7'' = Some 7" by code_simp
  from a parseRetries_clamped[of None "''many''" "[]" 0]
  have 1: "parseRetries (Some ''many'') = 3" by blast
  from b parseRetries_clamped[of None "[]" "'' 42 times''" 42]
  have 2: "parseRetries (Some '' 42 times'') = 10" by simp
  from c parseRetries_clamped[of None "[]" "''-5''" "- 5"]
  have 3: "parseRetries (Some ''-5'') = 1" by simp
  from d parseRetries_clamped[of None "[]" "''7''" 7]
  have 4: "parseRetries (Some ''7'') = 7" by simp
  from a b c 1 2 3 4 show ?thesis by blast
qed

section \<open>Properties of the retry wrapper\<close>

lemma trace_emit [simp]: "trace (emit es w) = trace w @ es"
  by (simp add: emit_def)

lemma ext_emit [simp]: "ext (emit es w) = ext w"
  by (simp add: emit_def)

lemma attempts_append [simp]: "attempts (s @ t) = attempts s + attempts t"
  by (simp add: attempts_def)

lemma attempts_simps [simp]:
  "attempts [] = 0" "attempts (e # t) = (if isAttempt e then Suc (attempts t) else attempts t)"
  by (simp_all add: attempts_def)

lemma attempts_retryEvents [simp]: "attempts (retryEvents options i e) = 0"
  by (simp add: attempts_def retryEvents_def)

lemma attempts_if_retryEvents [simp]:
  "attempts (if b then retryEvents options i e else []) = 0"
  by (simp add: attempts_def retryEvents_def)

lemma trace_afterFailure [simp]:
  "trace (afterFailure options attempt e x w) =
     trace w @ Attempt attempt #
       (if attempt < retries options then retryEvents options attempt (toError e) else [])"
  by (simp add: afterFailure_def)

lemma ext_afterFailure [simp]: "ext (afterFailure options attempt e x w) = x"
  by (simp add: afterFailure_def)

lemma loop_stop:
  "\<not> attempt \<le> retries options \<Longrightarrow>
     withRetry_loop action options attempt lastError w = (Inl lastError, w)"
  by (subst withRetry_loop.simps) simp

lemma loop_success:
  "attempt \<le> retries options \<Longrightarrow> action (ext w) = (Inr v, x) \<Longrightarrow>
     withRetry_loop action options attempt lastError w =
       (Inr v, \<lparr>trace = trace w @ [Attempt attempt], ext = x\<rparr>)"
  by (subst withRetry_loop.simps) (simp add: call_def)

lemma loop_failure:
  "attempt \<le> retries options \<Longrightarrow> action (ext w) = (Inl e, x) \<Longrightarrow>
     withRetry_loop action options attempt lastError w =
       withRetry_loop action options (attempt + 1) (toError e) (afterFailure options attempt e x w)"
  by (subst withRetry_loop.simps) (simp add: call_def emit_def afterFailure_def)

text \<open>The loop only appends to the trace.\<close>

lemma loop_prefix:
  "\<exists>es. trace (snd (withRetry_loop action options attempt lastError w)) = trace w @ es"
proof (induction "nat (retries options + 1 - attempt)" arbitrary: attempt lastError w)
  case 0
  then have "\<not> attempt \<le> retries options" by simp
  then show ?case by (simp add: loop_stop)
next
  case (Suc k)
  then have le: "attempt \<le> retries options" by simp
  obtain r x where ax: "action (ext w) = (r, x)" by (cases "action (ext w)")
  show ?case
  proof (cases r)
    case (Inr v)
    with le ax show ?thesis by (simp add: loop_success)
  next
    case (Inl e)
    have "k = nat (retries options + 1 - (attempt + 1))" using Suc.hyps(2) by simp
    from Suc.hyps(1)[OF this] obtain es where
      "trace (snd (withRetry_loop action options (attempt + 1) (toError e)
                     (afterFailure options attempt e x w)))
         = trace (afterFailure options attempt e x w) @ es" by blast
    with le ax Inl show ?thesis by (simp add: loop_failure)
  qed
qed

lemma withRetry_trace:
  "trace (snd (withRetry action options w)) = trace w @ newEvents w (snd (withRetry action options w))"
proof -
  obtain es where "trace (snd (withRetry action options w)) = trace w @ es"
    using loop_prefix[of action options 1 JSUndefined w] by (auto simp: withRetry_def)
  then show ?thesis by (simp add: newEvents_def)
qed







lemma show_int_5: "show_int 5 = ''5''"
  by code_simp

lemma marks_retryEvents:
  "filter isRetryMark (retryEvents options i e) =
     [ConsoleLog (attemptFailedLine options i), ConsoleLog retryingLine, Sleep 5000]"
  by (simp add: retryEvents_def show_int_5 attemptFailedLine_def startsWith_def warning_sign_def
      retryingLine_def RETRY_DELAY_MS_def)

lemma retryKind_retryEvents [simp]: "list_all retryKind (retryEvents options i e)"
  by (simp add: retryEvents_def)

text \<open>
  The shape of what the loop adds: the marks follow the schedule, the last event is an
  attempt, and every event is an attempt, a console line or a wait.
\<close>

lemma loop_schedule:
  "\<exists>es. trace (snd (withRetry_loop action options attempt lastError w)) = trace w @ es
     \<and> (attempt \<le> retries options \<longrightarrow> 1 \<le> attempts es)
     \<and> filter isRetryMark es = retrySchedule options attempt (attempts es)
     \<and> (es \<noteq> [] \<longrightarrow> isAttempt (last es))
     \<and> list_all retryKind es"
proof (induction "nat (retries options + 1 - attempt)" arbitrary: attempt lastError w)
  case 0
  then have "\<not> attempt \<le> retries options" by simp
  then show ?case by (simp add: loop_stop)
next
  case (Suc k)
  then have le: "attempt \<le> retries options" by simp
  obtain r x where ax: "action (ext w) = (r, x)" by (cases "action (ext w)")
  show ?case
  proof (cases r)
    case (Inr v)
    with le ax show ?thesis by (simp add: loop_success)
  next
    case (Inl e)
    have k: "k = nat (retries options + 1 - (attempt + 1))" using Suc.hyps(2) by simp
    from Suc.hyps(1)[OF k, of "toError e" "afterFailure options attempt e x w"]
    obtain es where es:
      "trace (snd (withRetry_loop action options (attempt + 1) (toError e)
                     (afterFailure options attempt e x w)))
         = trace (afterFailure options attempt e x w) @ es"
      "attempt + 1 \<le> retries options \<longrightarrow> 1 \<le> attempts es"
      "filter isRetryMark es = retrySchedule options (attempt + 1) (attempts es)"
      "es \<noteq> [] \<longrightarrow> isAttempt (last es)"
      "list_all retryKind es"
      by blast
    show ?thesis
    proof (cases "attempt < retries options")
      case True
      with es(2) obtain m where m: "attempts es = Suc m"
        by (cases "attempts es") auto
      then have ne: "es \<noteq> []" by auto
      let ?es = "Attempt attempt # retryEvents options attempt (toError e) @ es"
      have "trace (snd (withRetry_loop action options attempt lastError w)) = trace w @ ?es"
        using le ax Inl es(1) True by (simp add: loop_failure)
      moreover have "filter isRetryMark ?es = retrySchedule options attempt (attempts ?es)"
        using es(3) m by (simp add: marks_retryEvents)
      moreover have "isAttempt (last ?es)" using es(4) ne by simp
      moreover have "1 \<le> attempts ?es" by simp
      moreover have "list_all retryKind ?es" using es(5) by simp
      ultimately show ?thesis by blast
    next
      case False
      with le have eq: "attempt = retries options" by simp
      then have "withRetry_loop action options (attempt + 1) (toError e)
                     (afterFailure options attempt e x w)
                 = (Inl (toError e), afterFailure options attempt e x w)"
        by (simp add: loop_stop)
      then have "trace (snd (withRetry_loop action options attempt lastError w))
                   = trace w @ [Attempt attempt]"
        using le ax Inl eq by (simp add: loop_failure)
      then show ?thesis by simp
    qed
  qed
qed

lemma withRetry_schedule:
  "filter isRetryMark (newEvents w (snd (withRetry action options w)))
     = retrySchedule options 1 (attempts (newEvents w (snd (withRetry action options w))))
   \<and> list_all retryKind (newEvents w (snd (withRetry action options w)))
   \<and> (newEvents w (snd (withRetry action options w)) \<noteq> [] \<longrightarrow>
        isAttempt (last (newEvents w (snd (withRetry action options w)))))
   \<and> (1 \<le> retries options \<longrightarrow> 1 \<le> attempts (newEvents w (snd (withRetry action options w))))"
proof -
  from loop_schedule[of action options 1 JSUndefined w]
  obtain es where "trace (snd (withRetry action options w)) = trace w @ es"
    and "filter isRetryMark es = retrySchedule options 1 (attempts es)"
    and "list_all retryKind es" and "es \<noteq> [] \<longrightarrow> isAttempt (last es)"
    and "1 \<le> retries options \<longrightarrow> 1 \<le> attempts es"
    by (auto simp: withRetry_def)
  then show ?thesis by (simp add: newEvents_def)
qed

lemma sleeps_marks: "sleeps (filter isRetryMark t) = sleeps t"
  by (induction t) (auto simp: sleeps_def elim: isRetryMark.elims)

lemma sleeps_schedule: "sleeps (retrySchedule options a m) = replicate (m - 1) 5000"
  by (induction options a m rule: retrySchedule.induct) (simp_all add: sleeps_def)

text \<open>
  C8, as the code has it. The wait between attempts is the constant \<open>RETRY_DELAY_MS\<close>,
  5000 ms; the options object of \<open>withRetry\<close> has no property that changes it (the
  statement holds for every options object, whatever else it carries). It is the same
  after every attempt that is followed by another: the waits of a run are one wait of
  5000 ms for each attempt but the last. Nothing follows the last attempt, so there is no
  wait after the final failure.
\<close>

theorem retry_delay_constant:
  "RETRY_DELAY_MS = 5000
   \<and> sleeps (newEvents w (snd (withRetry action options w)))
       = replicate (attempts (newEvents w (snd (withRetry action options w))) - 1) RETRY_DELAY_MS
   \<and> (newEvents w (snd (withRetry action options w)) \<noteq> [] \<longrightarrow>
        isAttempt (last (newEvents w (snd (withRetry action options w)))))"
proof -
  let ?es = "newEvents w (snd (withRetry action options w))"
  note S = withRetry_schedule[of w action options]
  have "sleeps ?es = sleeps (filter isRetryMark ?es)" by (simp add: sleeps_marks)
  also have "\<dots> = sleeps (retrySchedule options 1 (attempts ?es))" using S by simp
  also have "\<dots> = replicate (attempts ?es - 1) 5000" by (rule sleeps_schedule)
  finally show ?thesis using S by (simp add: RETRY_DELAY_MS_def)
qed

theorem retry_delay_constant_witness:
  "newEvents (emptyWorld 0) (snd (withRetry alwaysFailing igLikeOptions (emptyWorld 0))) \<noteq> []
   \<and> isAttempt (last (newEvents (emptyWorld 0)
                        (snd (withRetry alwaysFailing igLikeOptions (emptyWorld 0)))))
   \<and> sleeps (newEvents (emptyWorld 0) (snd (withRetry alwaysFailing igLikeOptions (emptyWorld 0))))
       = [5000, 5000]"
proof -
  let ?es = "newEvents (emptyWorld 0) (snd (withRetry alwaysFailing igLikeOptions (emptyWorld 0)))"
  have a: "attempts ?es = 3" by code_simp
  then have ne: "?es \<noteq> []" by auto
  from retry_delay_constant[of "emptyWorld 0" alwaysFailing igLikeOptions] a ne
  show ?thesis by (simp add: numeral_3_eq_3)
qed

text \<open>
  The claim as stated asks for a delay the caller configures. A caller that puts
  \<open>fixedDelayMs = 1000\<close> into the options object still waits 5000 ms after each of the
  first two of three failed attempts.
\<close>

theorem fixedDelayMs_not_read:
  "sleeps (newEvents (emptyWorld 0)
     (snd (withRetry alwaysFailing
            \<lparr>retries = 3, actionName = ''IG like'', target = ''https://instagram.com/p/1'',
             fixedDelayMs = 1000\<rparr> (emptyWorld 0)))) = [5000, 5000]"
  by code_simp


section \<open>Properties of the action commands\<close>


lemma newEvents_self [simp]: "newEvents w w = []"
  by (simp add: newEvents_def)

lemma appendsOnly_returnE [simp]: "appendsOnly (returnE v)"
  by (simp add: appendsOnly_def returnE_def)

lemma appendsOnly_logE [simp]: "appendsOnly (logE es)"
  by (simp add: appendsOnly_def logE_def)

lemma appendsOnly_call [simp]: "appendsOnly (call e f)"
  by (simp add: appendsOnly_def call_def split: prod.splits)

lemma appendsOnly_withRetry [simp]: "appendsOnly (withRetry action options)"
  unfolding appendsOnly_def using withRetry_trace by blast

lemma appendsOnly_if [simp]:
  "appendsOnly m \<Longrightarrow> appendsOnly m' \<Longrightarrow> appendsOnly (if b then m else m')"
  by simp

lemma appendsOnly_bindE [simp]:
  assumes "appendsOnly m" and "\<And>v. appendsOnly (f v)"
  shows "appendsOnly (bindE m f)"
  unfolding appendsOnly_def
proof
  fix w
  obtain r w1 where m: "m w = (r, w1)" by (cases "m w")
  from assms(1) obtain es where es: "trace w1 = trace w @ es"
    using m by (auto simp: appendsOnly_def dest: spec[of _ w])
  show "\<exists>es. trace (snd (bindE m f w)) = trace w @ es"
  proof (cases r)
    case (Inl e)
    with m es show ?thesis by (simp add: bindE_def)
  next
    case (Inr v)
    from assms(2)[of v] obtain es' where "trace (snd (f v w1)) = trace w1 @ es'"
      by (auto simp: appendsOnly_def dest: spec[of _ w1])
    with m es Inr show ?thesis by (simp add: bindE_def)
  qed
qed


lemma newEvents_call [simp]: "newEvents w (snd (call e f w)) = [e]"
  by (simp add: newEvents_def call_def split: prod.splits)

lemma newEvents_logE [simp]: "newEvents w (snd (logE es w)) = es"
  by (simp add: newEvents_def logE_def)

lemma newEvents_returnE [simp]: "newEvents w (snd (returnE v w)) = []"
  by (simp add: returnE_def)

lemma appendsOnly_send [simp]:
  "appendsOnly (sendNotificationWithContext rt plat act ok tgt ctx err)"
  by (simp add: appendsOnly_def sendNotificationWithContext_def call_def split: prod.splits)



















lemma fst_call [simp]: "fst (call e f w) = fst (f (ext w))"
  by (simp add: call_def split: prod.splits)

lemma fst_logE [simp]: "fst (logE es w) = Inr ()"
  by (simp add: logE_def)

lemma fst_returnE [simp]: "fst (returnE v w) = Inr v"
  by (simp add: returnE_def)

lemma ext_logE [simp]: "ext (snd (logE es w)) = ext w"
  by (simp add: logE_def)

lemma snd_returnE [simp]: "snd (returnE v w) = w"
  by (simp add: returnE_def)

























section \<open>A malformed context\<close>

text \<open>
  C5, as the code has it. \<open>notify report\<close> with the notifier enabled and a malformed
  \<open>--context\<close> prints its error and exits with status 1 before the notifier is called;
  nothing else happens. An action command prints \<open>Invalid --context JSON: ...\<close> and then
  runs exactly as it would without the option: the action is attempted (and retried), no
  notification is sent by the command line, and the silent flag is not set.
\<close>

theorem malformed_context:
  "(isEnabled rt (ext w) \<and> reportContext ro = Some s \<and> s \<noteq> [] \<and> JSON_parse rt s = None \<longrightarrow>
      notifyReport rt plat act tgt ro w
        = (Exited 1, emit [ConsoleError (cross_mark @ '' Invalid JSON in --context''), Exit 1] w))
   \<and> (contextOpt options = Some s \<and> s \<noteq> [] \<and> JSON_parse rt s = None \<longrightarrow>
        runActionCommand rt cmd handler options w
          = runActionCommand rt cmd handler (options\<lparr>contextOpt := None\<rparr>)
              (emit [ConsoleError (''Invalid --context JSON: '' @ s)] w))"
  by (simp add: notifyReport_def falsyString_def runActionCommand_def parseContext_def)

theorem malformed_context_witness:
  "isEnabled (exampleRuntime :: nat runtime) (ext (emptyWorld 0 :: (event, nat) world))
   \<and> JSON_parse (exampleRuntime :: nat runtime) ''{'' = None
   \<and> notifyReport (exampleRuntime :: nat runtime) ''twitter'' ''comment'' exampleUrl
        \<lparr>reportContext = Some ''{'', reportError = None\<rparr> (emptyWorld 0)
      = (Exited 1,
         \<lparr>trace = [ConsoleError (cross_mark @ '' Invalid JSON in --context''), Exit 1], ext = 0\<rparr>)
   \<and> runActionCommand (exampleRuntime :: nat runtime) (commandSpec (IgLike exampleUrl)) succeeding
        (withContext ''{'') (emptyWorld 0)
      = runActionCommand (exampleRuntime :: nat runtime) (commandSpec (IgLike exampleUrl)) succeeding
          withoutContext \<lparr>trace = [ConsoleError ''Invalid --context JSON: {''], ext = 0\<rparr>"
proof -
  have e: "isEnabled (exampleRuntime :: nat runtime) (ext (emptyWorld 0 :: (event, nat) world))"
    by (simp add: exampleRuntime_def)
  have p: "JSON_parse (exampleRuntime :: nat runtime) ''{'' = None" by code_simp
  have o: "(withContext ''{'')\<lparr>contextOpt := None\<rparr> = withoutContext"
    by (simp add: withContext_def withoutContext_def)
  from malformed_context[of exampleRuntime "emptyWorld 0" "\<lparr>reportContext = Some ''{'', reportError = None\<rparr>"
      "''{''" "''twitter''" "''comment''" exampleUrl "withContext ''{''" "commandSpec (IgLike exampleUrl)"
      succeeding] e p o
  show ?thesis by (simp add: emit_def emptyWorld_def withContext_def)
qed


text \<open>
  The claim as stated fails for an action command: with the malformed \<open>--context {\<close>,
  \<open>ig like\<close> prints the error, runs the action and returns normally.
\<close>

theorem malformed_context_proceeds:
  "JSON_parse (exampleRuntime :: nat runtime) ''{'' = None
   \<and> runActionCommand (exampleRuntime :: nat runtime) (commandSpec (IgLike exampleUrl)) succeeding
        (withContext ''{'') (emptyWorld 0)
      = (Returned,
         \<lparr>trace = [ConsoleError ''Invalid --context JSON: {'', Initialize, Attempt 1,
                   ConsoleLog (check_mark @ '' Liked post: '' @ exampleUrl), Shutdown],
          ext = 1\<rparr>)"
  by code_simp

end
